theory Spec2Isabelle
  imports Complex_Main "HOL-Library.Sublist" "HOL-Library.Word"
begin

section \<open>JavaScript values\<close>

text \<open>
  The handlers of \<^verbatim>\<open>server.ts\<close> receive untyped data: the result of
  \<^verbatim>\<open>JSON.parse\<close> and the entries of \<^verbatim>\<open>req.query\<close>. They are modelled as values of
  the type \<open>jsval\<close>. \<open>JUndefined\<close> is what reading a missing property gives. An object is
  the list of its own properties, each key listed once. A number is a rational; the
  handlers only look at whether a number is zero (the one falsy number a parser
  produces), and infinities, which are truthy like every other nonzero number, have no
  constructor of their own.
\<close>

datatype jsval =
    JUndefined
  | JNull
  | JBool bool
  | JNum rat
  | JStr string
  | JArr "jsval list"
  | JObj "(string \<times> jsval) list"

text \<open>The conversion to boolean behind \<^verbatim>\<open>!x\<close> and \<^verbatim>\<open>x || y\<close>.\<close>

fun truthy :: "jsval \<Rightarrow> bool" where
  "truthy JUndefined = False"
| "truthy JNull = False"
| "truthy (JBool b) = b"
| "truthy (JNum n) = (n \<noteq> 0)"
| "truthy (JStr s) = (s \<noteq> [])"
| "truthy (JArr xs) = True"
| "truthy (JObj kvs) = True"

text \<open>
  \<^verbatim>\<open>a || b\<close>: the left operand when it is truthy, the right one otherwise.
\<close>

definition or_else :: "jsval \<Rightarrow> jsval \<Rightarrow> jsval" where
  "or_else a b = (if truthy a then a else b)"

text \<open>
  Reading one of the properties \<^verbatim>\<open>type\<close>, \<^verbatim>\<open>user\<close>, \<^verbatim>\<open>text\<close>, \<^verbatim>\<open>color\<close> of a value that
  is neither \<^verbatim>\<open>null\<close> nor \<^verbatim>\<open>undefined\<close>. None of the four is a built-in property of
  arrays, strings, numbers or booleans, so only an object can hold one. Reading a property
  of \<^verbatim>\<open>null\<close> or \<^verbatim>\<open>undefined\<close> throws instead, which \<open>nullish\<close> detects.
\<close>

fun member :: "jsval \<Rightarrow> string \<Rightarrow> jsval" where
  "member (JObj kvs) k = (case map_of kvs k of None \<Rightarrow> JUndefined | Some v \<Rightarrow> v)"
| "member v k = JUndefined"

fun nullish :: "jsval \<Rightarrow> bool" where
  "nullish JUndefined = True"
| "nullish JNull = True"
| "nullish v = False"

record js_error =
  name :: string
  message :: string

text \<open>The error of reading the property \<^verbatim>\<open>type\<close> of \<^verbatim>\<open>null\<close> or \<^verbatim>\<open>undefined\<close>.\<close>

definition type_error :: "jsval \<Rightarrow> js_error" where
  "type_error v =
     \<lparr>name = ''TypeError'',
      message = ''Cannot read properties of '' @
        (if v = JNull then ''null'' else ''undefined'') @ '' (reading 'type')''\<rparr>"

text \<open>
  \<^verbatim>\<open>s.substring(a, b)\<close> for \<open>a \<le> b\<close>: the characters at the indices \<open>a\<close> to \<open>b - 1\<close>,
  both bounds clamped to the length of \<open>s\<close>.
\<close>

definition substring :: "nat \<Rightarrow> nat \<Rightarrow> string \<Rightarrow> string" where
  "substring a b s = take (b - a) (drop a s)"

text \<open>
  Converting a value to a string, as a template literal does, throws for some values.
  The values here hold no functions, so an object with a property \<^verbatim>\<open>toString\<close> of its
  own has one that cannot be called, the inherited \<^verbatim>\<open>valueOf\<close> gives the object back,
  and the conversion ends in a \<^verbatim>\<open>TypeError\<close>. An array joins the conversions of its
  elements. Every other value converts.
\<close>

fun to_string_throws :: "jsval \<Rightarrow> bool" where
  "to_string_throws (JObj kvs) = (map_of kvs ''toString'' \<noteq> None)"
| "to_string_throws (JArr xs) = list_ex to_string_throws xs"
| "to_string_throws v = False"

definition convert_error :: js_error where
  "convert_error =
     \<lparr>name = ''TypeError'', message = ''Cannot convert object to primitive value''\<rparr>"

section \<open>The broadcast hub\<close>

text \<open>The interface \<^verbatim>\<open>ChatMessage\<close>. The fields \<^verbatim>\<open>id\<close> and \<^verbatim>\<open>text\<close> carry a suffix. The
  declared types of \<^verbatim>\<open>user\<close>, \<^verbatim>\<open>text\<close> and \<^verbatim>\<open>color\<close> are \<^verbatim>\<open>string\<close>, but the values come
  unchecked out of the parsed payload, so their type here is \<open>jsval\<close>.\<close>

record ChatMessage =
  id_msg :: string
  user :: jsval
  text_msg :: jsval
  timestamp :: int
  color :: jsval

text \<open>A socket is identified by a number; \<^verbatim>\<open>readyState\<close> has four values.\<close>

type_synonym ws = nat

datatype ready_state = CONNECTING | OPEN | CLOSING | CLOSED

text \<open>What is sent to a socket: the value handed to \<^verbatim>\<open>JSON.stringify\<close>.\<close>

datatype frame =
    InitFrame "ChatMessage list"
  | MessageFrame ChatMessage

text \<open>
  \<^verbatim>\<open>JSON.stringify\<close> does not return for every value: it recurses into arrays and
  objects and throws a \<^verbatim>\<open>RangeError\<close> when a value is nested deeper than the stack
  allows, which a parsed payload can be. How deep that is depends on the platform, so the
  handlers take the behaviour of \<^verbatim>\<open>JSON.stringify\<close> as a parameter: the error it throws
  on a frame, or \<open>None\<close> when it returns.
\<close>

type_synonym stringify = "frame \<Rightarrow> js_error option"

text \<open>
  The state: the two module-level variables \<^verbatim>\<open>messages\<close> and \<^verbatim>\<open>clients\<close> (a \<^verbatim>\<open>Set\<close> is
  iterated in insertion order, so it is a list without repetition), and the environment
  the handlers act on: the \<^verbatim>\<open>readyState\<close> of every socket, the sends made so far in the
  order they were made (\<open>outbox\<close>), and what \<^verbatim>\<open>console.error\<close> printed.
\<close>

record hub =
  messages :: "ChatMessage list"
  clients :: "ws list"
  readyState :: "ws \<Rightarrow> ready_state"
  outbox :: "(ws \<times> frame) list"
  console :: "js_error list"

definition init_hub :: hub where
  "init_hub = \<lparr>messages = [], clients = [], readyState = (\<lambda>w. CONNECTING),
     outbox = [], console = []\<rparr>"

text \<open>\<^verbatim>\<open>Set.add\<close> and \<^verbatim>\<open>Set.delete\<close>.\<close>

definition set_add :: "ws \<Rightarrow> ws list \<Rightarrow> ws list" where
  "set_add w ws = (if w \<in> set ws then ws else ws @ [w])"

definition set_delete :: "ws \<Rightarrow> ws list \<Rightarrow> ws list" where
  "set_delete w ws = removeAll w ws"

text \<open>
  The handler of \<^verbatim>\<open>wss.on("connection")\<close>: register, then send the initial state. The
  call of \<^verbatim>\<open>JSON.stringify\<close> is in no \<^verbatim>\<open>try\<close> block. When it throws, the exception
  leaves the handler after \<^verbatim>\<open>clients.add\<close>: nothing is sent and no listener is attached.
  The result is then \<open>Inl\<close>, with the error and the state the handler leaves behind.
\<close>

definition on_connection :: "stringify \<Rightarrow> ws \<Rightarrow> hub \<Rightarrow> (js_error \<times> hub) + hub" where
  "on_connection sf w s =
     (let s' = s\<lparr>clients := set_add w (clients s)\<rparr>
      in case sf (InitFrame (messages s')) of
           Some e \<Rightarrow> Inl (e, s')
         | None \<Rightarrow> Inr (s'\<lparr>outbox := outbox s' @ [(w, InitFrame (messages s'))]\<rparr>))"

text \<open>
  The object literal \<^verbatim>\<open>newMessage\<close>. \<open>rnd\<close> is \<^verbatim>\<open>Math.random().toString(36)\<close> and \<open>now\<close> is
  \<^verbatim>\<open>Date.now()\<close>, both supplied by the environment.
\<close>

definition newMessage :: "jsval \<Rightarrow> string \<Rightarrow> int \<Rightarrow> ChatMessage" where
  "newMessage payload rnd now =
     \<lparr>id_msg = substring 2 11 rnd,
      user = or_else (member payload ''user'') (JStr ''Anonymous''),
      text_msg = member payload ''text'',
      timestamp = now,
      color = or_else (member payload ''color'') (JStr ''#ffffff'')\<rparr>"

text \<open>\<^verbatim>\<open>messages.push(newMessage); if (messages.length > 50) messages.shift();\<close>\<close>

definition push_shift :: "ChatMessage list \<Rightarrow> ChatMessage \<Rightarrow> ChatMessage list" where
  "push_shift ms m = (let ms' = ms @ [m] in if length ms' > 50 then tl ms' else ms')"

text \<open>The loop \<^verbatim>\<open>clients.forEach\<close>: the sends it makes, in order.\<close>

fun forEach_send :: "(ws \<Rightarrow> ready_state) \<Rightarrow> frame \<Rightarrow> ws list \<Rightarrow> (ws \<times> frame) list" where
  "forEach_send rs broadcastData [] = []"
| "forEach_send rs broadcastData (client # cs) =
     (if rs client = OPEN then (client, broadcastData) # forEach_send rs broadcastData cs
      else forEach_send rs broadcastData cs)"

text \<open>
  The handler of \<^verbatim>\<open>ws.on("message")\<close>. \<open>data\<close> is the outcome of
  \<^verbatim>\<open>JSON.parse(data.toString())\<close>: the error it throws or the value it returns. Every
  exception ends in the \<^verbatim>\<open>catch\<close> block, which prints it and undoes nothing: when
  \<^verbatim>\<open>JSON.stringify\<close> throws on the new message, the message has been pushed already
  and stays in the buffer, and the loop over the sockets is never reached.
\<close>

definition on_message :: "stringify \<Rightarrow> js_error + jsval \<Rightarrow> string \<Rightarrow> int \<Rightarrow> hub \<Rightarrow> hub" where
  "on_message sf data rnd now s =
     (case data of
        Inl e \<Rightarrow> s\<lparr>console := console s @ [e]\<rparr>
      | Inr payload \<Rightarrow>
          if nullish payload then s\<lparr>console := console s @ [type_error payload]\<rparr>
          else if member payload ''type'' = JStr ''message'' then
            (let m = newMessage payload rnd now;
                 s' = s\<lparr>messages := push_shift (messages s) m\<rparr>
             in case sf (MessageFrame m) of
                  Some e \<Rightarrow> s'\<lparr>console := console s' @ [e]\<rparr>
                | None \<Rightarrow>
                    s'\<lparr>outbox := outbox s' @
                        forEach_send (readyState s') (MessageFrame m) (clients s')\<rparr>)
          else s)"

text \<open>The handler of \<^verbatim>\<open>ws.on("close")\<close>.\<close>

definition on_close :: "ws \<Rightarrow> hub \<Rightarrow> hub" where
  "on_close w s = s\<lparr>clients := set_delete w (clients s)\<rparr>"

text \<open>
  What can happen to the hub. A socket is \<open>OPEN\<close> when its connection event fires and
  \<open>CLOSED\<close> when its close event fires; in between the transport may change its
  \<^verbatim>\<open>readyState\<close> on its own (\<open>Transport\<close>), which no handler observes.
\<close>

datatype event =
    Connection ws
  | Message ws "js_error + jsval" string int
  | Close ws
  | Transport ws ready_state

fun step :: "stringify \<Rightarrow> event \<Rightarrow> hub \<Rightarrow> (js_error \<times> hub) + hub" where
  "step sf (Connection w) s =
     on_connection sf w (s\<lparr>readyState := (readyState s)(w := OPEN)\<rparr>)"
| "step sf (Message w data rnd now) s = Inr (on_message sf data rnd now s)"
| "step sf (Close w) s = Inr (on_close w (s\<lparr>readyState := (readyState s)(w := CLOSED)\<rparr>))"
| "step sf (Transport w r) s = Inr (s\<lparr>readyState := (readyState s)(w := r)\<rparr>)"

text \<open>
  A run handles the events one after the other. An exception that leaves a handler is
  caught by nothing in this program, and Node ends the process on it: the run stops
  there, with the error and the state at that moment.
\<close>

fun run :: "stringify \<Rightarrow> event list \<Rightarrow> hub \<Rightarrow> (js_error \<times> hub) + hub" where
  "run sf [] s = Inr s"
| "run sf (e # es) s =
     (case step sf e s of Inl x \<Rightarrow> Inl x | Inr s' \<Rightarrow> run sf es s')"

text \<open>
  Reading the result of a run: the state it ends in (after the last event, or where the
  exception left it) and the exception that ended it, if one did.
\<close>

fun final :: "(js_error \<times> hub) + hub \<Rightarrow> hub" where
  "final (Inr s) = s"
| "final (Inl (e, s)) = s"

fun uncaught :: "(js_error \<times> hub) + hub \<Rightarrow> js_error option" where
  "uncaught (Inr s) = None"
| "uncaught (Inl (e, s)) = Some e"

text \<open>
  A payload is accepted when the handler reaches \<^verbatim>\<open>messages.push\<close>; \<open>posts\<close> lists the
  messages a sequence of events creates, in the order of their creation.
\<close>

fun accepted :: "js_error + jsval \<Rightarrow> bool" where
  "accepted (Inl e) = False"
| "accepted (Inr payload) = (\<not> nullish payload \<and> member payload ''type'' = JStr ''message'')"

fun posts :: "event list \<Rightarrow> ChatMessage list" where
  "posts [] = []"
| "posts (Message w (Inr payload) rnd now # es) =
     (if accepted (Inr payload) then newMessage payload rnd now # posts es else posts es)"
| "posts (e # es) = posts es"

definition lastn :: "nat \<Rightarrow> 'a list \<Rightarrow> 'a list" where
  "lastn n xs = drop (length xs - n) xs"

section \<open>The relay\<close>

text \<open>
  What \<^verbatim>\<open>fetch\<close> gives back: the value of \<^verbatim>\<open>response.headers.get("content-type")\<close>
  (\<open>None\<close> for \<^verbatim>\<open>null\<close>), the milliseconds the body takes to arrive once the headers
  are there, and what \<^verbatim>\<open>response.arrayBuffer()\<close> settles to, an error or the bytes of
  the body.
\<close>

record response =
  content_type :: "string option"
  body_ms :: nat
  arrayBuffer :: "js_error + 8 word list"

datatype settled = Rejected js_error | Resolved response

text \<open>
  The upstream as the relay meets it: after how many milliseconds the promise of
  \<^verbatim>\<open>fetch\<close> would settle if nothing aborted it (it resolves when the response headers
  have arrived), and to what.
\<close>

record upstream =
  latency :: nat
  outcome :: settled

definition abort_error :: js_error where
  "abort_error = \<lparr>name = ''AbortError'', message = ''This operation was aborted''\<rparr>"

text \<open>
  \<^verbatim>\<open>fetch\<close> under the signal of a controller that a timer aborts after \<open>ms\<close>
  milliseconds: a promise still pending when the timer fires rejects with the abort
  error. The handler clears the timer as soon as the promise has settled, so the time
  the body takes plays no part: reading it is under no deadline.
\<close>

definition fetch :: "upstream \<Rightarrow> nat \<Rightarrow> settled" where
  "fetch up ms = (if ms \<le> latency up then Rejected abort_error else outcome up)"

text \<open>
  What the handler does, in order: the outbound request with its headers, the calls on
  \<^verbatim>\<open>res\<close>, and an exception that leaves the handler. Console output is left out.
\<close>

datatype effect =
    Fetch jsval "(string \<times> string) list"
  | SetHeader string string
  | Status nat
  | Json "(string \<times> string) list"
  | Send "8 word list"
  | Uncaught js_error

definition user_agent :: string where
  "user_agent = ''Mozilla/5.0 (Windows NT 10.0; Win64; x64) AppleWebKit/537.36 (KHTML, like Gecko) Chrome/91.0.4472.124 Safari/537.36''"

text \<open>
  The \<^verbatim>\<open>catch\<close> block of the proxy endpoint. Its first statement prints the target
  through a template literal.
\<close>

definition catch_error :: "jsval \<Rightarrow> js_error \<Rightarrow> effect list" where
  "catch_error targetUrl error =
     (if to_string_throws targetUrl then [Uncaught convert_error]
      else
        (let message' = (if name error = ''AbortError'' then ''Request timed out''
                         else ''Failed to fetch URL'')
         in [Status 500, Json [(''error'', message'), (''details'', message error)]]))"

text \<open>
  The handler of \<^verbatim>\<open>GET /api/proxy\<close>. \<open>targetUrl\<close> is \<^verbatim>\<open>req.query.url\<close>: undefined, a
  string, or an array or object when the query repeats or nests the parameter. The
  first statement of the \<^verbatim>\<open>try\<close> block prints the target through a template literal;
  when that throws, the \<^verbatim>\<open>catch\<close> block runs and throws on its own template literal,
  and the handler has issued no request and made no reply.
\<close>

definition api_proxy :: "jsval \<Rightarrow> upstream \<Rightarrow> effect list" where
  "api_proxy targetUrl up =
     (if \<not> truthy targetUrl then [Status 400, Json [(''error'', ''URL is required'')]]
      else if to_string_throws targetUrl then catch_error targetUrl convert_error
      else
        Fetch targetUrl [(''User-Agent'', user_agent)] #
        (case fetch up 10000 of
           Rejected error \<Rightarrow> catch_error targetUrl error
         | Resolved response \<Rightarrow>
             (case content_type response of
                None \<Rightarrow> []
              | Some contentType \<Rightarrow>
                  if contentType \<noteq> [] then [SetHeader ''Content-Type'' contentType] else []) @
             [SetHeader ''Access-Control-Allow-Origin'' ''*'',
              SetHeader ''X-Frame-Options'' ''ALLOWALL'',
              SetHeader ''Content-Security-Policy'' ''frame-ancestors *''] @
             (case arrayBuffer response of
                Inl error \<Rightarrow> catch_error targetUrl error
              | Inr body \<Rightarrow> [Send body])))"

text \<open>
  Reading a list of effects: the outbound requests, the body handed to \<^verbatim>\<open>res.send\<close>,
  the status and the JSON object of an error reply, and the value a header was last set
  to.
\<close>

fun fetches :: "effect list \<Rightarrow> jsval list" where
  "fetches [] = []"
| "fetches (Fetch u hs # l) = u # fetches l"
| "fetches (e # l) = fetches l"

fun sent_body :: "effect list \<Rightarrow> 8 word list option" where
  "sent_body [] = None"
| "sent_body (Send b # l) = Some b"
| "sent_body (e # l) = sent_body l"

fun error_reply :: "effect list \<Rightarrow> (nat \<times> (string \<times> string) list) option" where
  "error_reply [] = None"
| "error_reply (Status n # Json kvs # l) = Some (n, kvs)"
| "error_reply (e # l) = error_reply l"

fun header_set :: "string \<Rightarrow> effect list \<Rightarrow> string option" where
  "header_set k [] = None"
| "header_set k (SetHeader k' v # l) =
     (case header_set k l of Some v' \<Rightarrow> Some v' | None \<Rightarrow> if k' = k then Some v else None)"
| "header_set k (e # l) = header_set k l"

text \<open>The effects that come before the body is written.\<close>

fun before_send :: "effect list \<Rightarrow> effect list" where
  "before_send [] = []"
| "before_send (Send b # l) = []"
| "before_send (e # l) = e # before_send l"

section \<open>Sample inputs\<close>

text \<open>
  Payloads a client can send: a complete one, one with no \<^verbatim>\<open>text\<close>, one with an empty
  \<^verbatim>\<open>text\<close>, one with an empty \<^verbatim>\<open>color\<close>, and one that carries an \<^verbatim>\<open>id\<close> of its own.
\<close>

definition hello :: jsval where
  "hello = JObj [(''type'', JStr ''message''), (''user'', JStr ''alice''),
     (''text'', JStr ''hi''), (''color'', JStr ''#fff'')]"

definition no_text :: jsval where
  "no_text = JObj [(''type'', JStr ''message''), (''user'', JStr ''bob'')]"

definition empty_text :: jsval where
  "empty_text = JObj [(''type'', JStr ''message''), (''user'', JStr ''bob''),
     (''text'', JStr []), (''color'', JStr ''#34d399'')]"

definition empty_color :: jsval where
  "empty_color = JObj [(''type'', JStr ''message''), (''user'', JStr []),
     (''text'', JStr ''hi''), (''color'', JStr [])]"

definition own_id :: jsval where
  "own_id = JObj [(''type'', JStr ''message''), (''id'', JStr ''chosen-by-client''),
     (''text'', JStr ''hi'')]"

text \<open>
  A value of \<open>n\<close> arrays inside each other, and a payload whose \<^verbatim>\<open>text\<close> is such a
  value.
\<close>

fun deep :: "nat \<Rightarrow> jsval" where
  "deep 0 = JStr ''x''"
| "deep (Suc n) = JArr [deep n]"

definition deep_text :: "nat \<Rightarrow> jsval" where
  "deep_text n = JObj [(''type'', JStr ''message''), (''user'', JStr ''bob''),
     (''text'', deep n)]"

text \<open>
  A \<^verbatim>\<open>JSON.stringify\<close> that gives up beyond \<open>n\<close> levels of arrays and objects: the
  levels of a value, of a message (an object of values) and of a frame (an object that
  holds a message, or an array of messages).
\<close>

fun nesting :: "jsval \<Rightarrow> nat" where
  "nesting (JArr xs) = Suc (fold max (map nesting xs) 0)"
| "nesting (JObj kvs) = Suc (fold max (map (\<lambda>kv. nesting (snd kv)) kvs) 0)"
| "nesting v = 0"

definition message_nesting :: "ChatMessage \<Rightarrow> nat" where
  "message_nesting m =
     Suc (max (nesting (user m)) (max (nesting (text_msg m)) (nesting (color m))))"

fun frame_nesting :: "frame \<Rightarrow> nat" where
  "frame_nesting (MessageFrame m) = Suc (message_nesting m)"
| "frame_nesting (InitFrame ms) = Suc (Suc (fold max (map message_nesting ms) 0))"

definition range_error :: js_error where
  "range_error = \<lparr>name = ''RangeError'', message = ''Maximum call stack size exceeded''\<rparr>"

definition stack :: "nat \<Rightarrow> stringify" where
  "stack n f = (if n < frame_nesting f then Some range_error else None)"

text \<open>The \<open>n\<close>-th of a series of posts, made at the time \<open>n\<close>.\<close>

definition say :: "nat \<Rightarrow> event" where
  "say n = Message 10 (Inr hello) ''0.4fzyo82mvyt'' (int n)"

text \<open>
  A hub with two registered sockets, as it is after the connection events of the sockets
  10 and 20 and the change of socket 20 to \<open>CLOSING\<close>: socket 10 is open, socket 20 is
  closing and its close event has not fired yet.
\<close>

definition lobby :: hub where
  "lobby = \<lparr>messages = [], clients = [10, 20],
     readyState = (\<lambda>w. CONNECTING)(10 := OPEN, 20 := CLOSING),
     outbox = [(10, InitFrame []), (20, InitFrame [])], console = []\<rparr>"

text \<open>
  Upstreams: one that answers an HTML page after 120 ms, one that answers after 15 s, one
  that sends its headers after 120 ms and takes 15 s more for the body, one that refuses
  the connection, one whose \<^verbatim>\<open>Content-Type\<close> header is present with an empty value,
  and one whose body breaks off after the headers.
\<close>

definition page :: response where
  "page = \<lparr>content_type = Some ''text/html; charset=utf-8'', body_ms = 5,
            arrayBuffer = Inr [0x3C, 0x70, 0x3E]\<rparr>"

definition quick :: upstream where
  "quick = \<lparr>latency = 120, outcome = Resolved page\<rparr>"

definition slow :: upstream where
  "slow = \<lparr>latency = 15000, outcome = Resolved page\<rparr>"

definition trickle :: upstream where
  "trickle = \<lparr>latency = 120,
     outcome = Resolved \<lparr>content_type = Some ''text/html'', body_ms = 15000,
       arrayBuffer = Inr [0x3C, 0x70, 0x3E]\<rparr>\<rparr>"

definition refused :: upstream where
  "refused = \<lparr>latency = 3,
     outcome = Rejected \<lparr>name = ''TypeError'', message = ''fetch failed''\<rparr>\<rparr>"

definition blank_type :: upstream where
  "blank_type = \<lparr>latency = 120,
     outcome = Resolved \<lparr>content_type = Some [], body_ms = 5,
       arrayBuffer = Inr [0x3C, 0x70, 0x3E]\<rparr>\<rparr>"

definition cut_off :: upstream where
  "cut_off = \<lparr>latency = 120,
     outcome = Resolved \<lparr>content_type = Some ''text/html'', body_ms = 5,
       arrayBuffer = Inl \<lparr>name = ''TypeError'', message = ''terminated''\<rparr>\<rparr>\<rparr>"

section \<open>Reading the record of sends\<close>

text \<open>The chat messages broadcast to the socket \<open>c\<close> among the sends \<open>l\<close>, in order.\<close>

fun received :: "ws \<Rightarrow> (ws \<times> frame) list \<Rightarrow> ChatMessage list" where
  "received c [] = []"
| "received c ((w, MessageFrame m) # l) = (if w = c then m # received c l else received c l)"
| "received c ((w, InitFrame ms) # l) = received c l"

text \<open>All that was sent to the socket \<open>c\<close> among the sends \<open>l\<close>, in order.\<close>

definition sent_to :: "ws \<Rightarrow> (ws \<times> frame) list \<Rightarrow> frame list" where
  "sent_to c l = map snd (filter (\<lambda>p. fst p = c) l)"

section \<open>The history buffer\<close>

lemma push_shift_lastn:
  "length ms \<le> 50 \<Longrightarrow> push_shift ms m = lastn 50 (ms @ [m])"
proof (cases "length ms = 50")
  case True
  then have "lastn 50 (ms @ [m]) = tl (ms @ [m])"
    by (cases ms) (simp_all add: lastn_def)
  with True show ?thesis by (simp add: push_shift_def Let_def)
next
  case False
  assume "length ms \<le> 50"
  with False have "length ms < 50" by simp
  then show ?thesis by (simp add: push_shift_def Let_def lastn_def)
qed

lemma push_shift_explicit:
  "push_shift ms m = (if length ms < 50 then ms @ [m] else tl ms @ [m])"
proof (cases "length ms < 50")
  case True
  then show ?thesis by (simp add: push_shift_def Let_def)
next
  case False
  then have "tl (ms @ [m]) = tl ms @ [m]" by (cases ms) simp_all
  with False show ?thesis by (simp add: push_shift_def Let_def)
qed

lemma push_shift_last: "last (push_shift ms m) = m"
  by (simp add: push_shift_explicit)

lemma lastn_lastn_append:
  "lastn n (lastn n xs @ ys) = lastn n (xs @ ys)"
proof (cases "length xs \<le> n")
  case True
  then show ?thesis by (simp add: lastn_def)
next
  case False
  then have "length xs - n + n = length xs" by simp
  then show ?thesis using False by (simp add: lastn_def add.commute)
qed

lemma length_lastn: "length (lastn n xs) \<le> n"
  by (simp add: lastn_def)

lemma lastn_short: "length xs \<le> n \<Longrightarrow> lastn n xs = xs"
  by (simp add: lastn_def)

lemma posts_single:
  "posts [Message w data rnd now] =
     (if accepted data then [newMessage (projr data) rnd now] else [])"
  by (cases data) simp_all

lemma posts_Cons: "posts (e # es) = posts [e] @ posts es"
  by (cases "(e # es)" rule: posts.cases) auto

lemma on_message_messages:
  "messages (on_message sf data rnd now s) =
     (if accepted data then push_shift (messages s) (newMessage (projr data) rnd now)
      else messages s)"
  by (cases data) (simp_all add: on_message_def Let_def split: option.splits)

lemma on_message_clients: "clients (on_message sf data rnd now s) = clients s"
  by (cases data) (simp_all add: on_message_def Let_def split: option.splits)

lemma on_message_readyState: "readyState (on_message sf data rnd now s) = readyState s"
  by (cases data) (simp_all add: on_message_def Let_def split: option.splits)

lemma forEach_send_filter:
  "forEach_send rs d cs = map (\<lambda>c. (c, d)) (filter (\<lambda>c. rs c = OPEN) cs)"
  by (induction cs) simp_all

lemma on_message_outbox:
  "outbox (on_message sf data rnd now s) =
     outbox s @
       (if accepted data \<and> sf (MessageFrame (newMessage (projr data) rnd now)) = None
        then map (\<lambda>c. (c, MessageFrame (newMessage (projr data) rnd now)))
               (filter (\<lambda>c. readyState s c = OPEN) (clients s))
        else [])"
  by (cases data)
    (auto simp: on_message_def Let_def forEach_send_filter split: option.splits)

lemma on_message_console:
  "accepted data \<Longrightarrow>
   console (on_message sf data rnd now s) =
     console s @ (case sf (MessageFrame (newMessage (projr data) rnd now)) of
                    None \<Rightarrow> [] | Some e \<Rightarrow> [e])"
  by (cases data) (auto simp: on_message_def Let_def split: option.splits)

lemma on_connection_Inr:
  "on_connection sf w s = Inr s' \<Longrightarrow>
   sf (InitFrame (messages s)) = None \<and> messages s' = messages s \<and>
   clients s' = set_add w (clients s) \<and> readyState s' = readyState s \<and>
   outbox s' = outbox s @ [(w, InitFrame (messages s))] \<and> console s' = console s"
  by (auto simp: on_connection_def Let_def split: option.splits)

lemma on_connection_Inl:
  "on_connection sf w s = Inl (e, s') \<Longrightarrow>
   sf (InitFrame (messages s)) = Some e \<and> messages s' = messages s \<and>
   clients s' = set_add w (clients s) \<and> readyState s' = readyState s \<and>
   outbox s' = outbox s \<and> console s' = console s"
  by (auto simp: on_connection_def Let_def split: option.splits)

lemma step_messages:
  assumes "length (messages s) \<le> 50" and "step sf e s = Inr s'"
  shows "messages s' = lastn 50 (messages s @ posts [e])"
proof (cases e)
  case (Message w data rnd now)
  with assms show ?thesis
    by (auto simp: on_message_messages posts_single push_shift_lastn lastn_short)
next
  case (Connection w)
  with assms show ?thesis by (auto dest!: on_connection_Inr simp: lastn_short)
next
  case (Close w)
  with assms show ?thesis by (auto simp: on_close_def lastn_short)
next
  case (Transport w r)
  with assms show ?thesis by (auto simp: lastn_short)
qed

lemma step_uncaught_messages:
  assumes "step sf e s = Inl (err, s')"
  shows "messages s' = messages s"
  using assms by (cases e) (auto dest!: on_connection_Inl)

lemma run_messages:
  "length (messages s) \<le> 50 \<Longrightarrow> run sf es s = Inr s' \<Longrightarrow>
   messages s' = lastn 50 (messages s @ posts es)"
proof (induction es arbitrary: s)
  case Nil
  then show ?case by (simp add: lastn_short)
next
  case (Cons e es)
  from Cons.prems(2) obtain s1 where s1: "step sf e s = Inr s1" and r: "run sf es s1 = Inr s'"
    by (auto split: sum.splits)
  have st: "messages s1 = lastn 50 (messages s @ posts [e])"
    using Cons.prems(1) s1 by (rule step_messages)
  then have "length (messages s1) \<le> 50"
    by (simp add: length_lastn)
  then have "messages s' = lastn 50 (messages s1 @ posts es)"
    using r by (rule Cons.IH)
  also have "\<dots> = lastn 50 ((messages s @ posts [e]) @ posts es)"
    unfolding st by (rule lastn_lastn_append)
  finally show ?case
    using posts_Cons [of e es] by simp
qed

lemma run_uncaught_messages:
  "length (messages s) \<le> 50 \<Longrightarrow> run sf es s = Inl (err, s') \<Longrightarrow>
   \<exists>n<length es. messages s' = lastn 50 (messages s @ posts (take n es))"
proof (induction es arbitrary: s)
  case Nil
  then show ?case by simp
next
  case (Cons e es)
  show ?case
  proof (cases "step sf e s")
    case (Inl x)
    with Cons.prems(2) have "step sf e s = Inl (err, s')" by simp
    then have "messages s' = messages s" by (rule step_uncaught_messages)
    with Cons.prems(1) have "messages s' = lastn 50 (messages s @ posts (take 0 (e # es)))"
      by (simp add: lastn_short)
    then show ?thesis by (intro exI [of _ 0]) simp
  next
    case (Inr s1)
    with Cons.prems(2) have r: "run sf es s1 = Inl (err, s')" by simp
    have st: "messages s1 = lastn 50 (messages s @ posts [e])"
      using Cons.prems(1) Inr by (rule step_messages)
    then have "length (messages s1) \<le> 50"
      by (simp add: length_lastn)
    from Cons.IH [OF this r] obtain n where n: "n < length es"
      and m: "messages s' = lastn 50 (messages s1 @ posts (take n es))"
      by blast
    have "messages s' = lastn 50 ((messages s @ posts [e]) @ posts (take n es))"
      unfolding m st by (rule lastn_lastn_append)
    then have "messages s' = lastn 50 (messages s @ posts (take (Suc n) (e # es)))"
      using posts_Cons [of e "take n es"] by simp
    with n show ?thesis by (intro exI [of _ "Suc n"]) simp
  qed
qed

section \<open>Facts about the handlers\<close>

lemma received_append: "received c (xs @ ys) = received c xs @ received c ys"
  by (induction c xs rule: received.induct) simp_all

lemma received_broadcast:
  "distinct cs \<Longrightarrow>
   received c (map (\<lambda>w. (w, MessageFrame m)) (filter (\<lambda>w. rs w = OPEN) cs)) =
     (if c \<in> set cs \<and> rs c = OPEN then [m] else [])"
  by (induction cs) auto

lemma distinct_set_add: "distinct ws \<Longrightarrow> distinct (set_add w ws)"
  by (simp add: set_add_def)

lemma distinct_set_delete: "distinct ws \<Longrightarrow> distinct (set_delete w ws)"
  by (simp add: set_delete_def distinct_removeAll)

lemma step_distinct:
  "distinct (clients s) \<Longrightarrow> step sf e s = Inr s' \<Longrightarrow> distinct (clients s')"
  by (cases e)
    (auto dest!: on_connection_Inr
      simp: on_close_def on_message_clients distinct_set_add distinct_set_delete)

lemma step_received:
  assumes "distinct (clients s)" and "step sf e s = Inr s'"
  shows "\<exists>X. received c (outbox s') = received c (outbox s) @ X \<and> subseq X (posts [e])"
proof (cases e)
  case (Message w data rnd now)
  let ?m = "newMessage (projr data) rnd now"
  let ?X = "if accepted data \<and> sf (MessageFrame ?m) = None \<and>
               c \<in> set (clients s) \<and> readyState s c = OPEN then [?m] else []"
  have "received c (outbox s') = received c (outbox s) @ ?X"
    using Message assms
    by (auto simp: on_message_outbox received_append received_broadcast)
  moreover have "subseq ?X (posts [e])"
    using Message by (simp add: posts_single)
  ultimately show ?thesis by blast
next
  case (Connection w)
  with assms(2) show ?thesis by (auto dest!: on_connection_Inr simp: received_append)
next
  case (Close w)
  with assms(2) show ?thesis by (auto simp: on_close_def)
next
  case (Transport w r)
  with assms(2) show ?thesis by auto
qed

lemma run_received:
  "distinct (clients s) \<Longrightarrow> run sf es s = Inr s' \<Longrightarrow>
   \<exists>X. received c (outbox s') = received c (outbox s) @ X \<and> subseq X (posts es)"
proof (induction es arbitrary: s)
  case Nil
  then show ?case by simp
next
  case (Cons e es)
  from Cons.prems(2) obtain s1 where s1: "step sf e s = Inr s1" and r: "run sf es s1 = Inr s'"
    by (auto split: sum.splits)
  from step_received [OF Cons.prems(1) s1] obtain X where
    X: "received c (outbox s1) = received c (outbox s) @ X" "subseq X (posts [e])"
    by blast
  from Cons.IH [OF step_distinct [OF Cons.prems(1) s1] r] obtain Y where
    Y: "received c (outbox s') = received c (outbox s1) @ Y" "subseq Y (posts es)"
    by blast
  have "subseq (X @ Y) (posts [e] @ posts es)"
    using X(2) Y(2) by (rule list_emb_append_mono)
  then have "subseq (X @ Y) (posts (e # es))"
    using posts_Cons [of e es] by simp
  moreover have "received c (outbox s') = received c (outbox s) @ (X @ Y)"
    using X(1) Y(1) by simp
  ultimately show ?case by blast
qed

lemma step_outbox_prefix: "step sf e s = Inr s' \<Longrightarrow> \<exists>l. outbox s' = outbox s @ l"
  by (cases e) (auto dest!: on_connection_Inr simp: on_close_def on_message_outbox)

lemma step_uncaught_outbox: "step sf e s = Inl (err, s') \<Longrightarrow> outbox s' = outbox s"
  by (cases e) (auto dest!: on_connection_Inl)

lemma run_outbox_prefix:
  "run sf es s = Inr s' \<or> run sf es s = Inl (err, s') \<Longrightarrow> \<exists>l. outbox s' = outbox s @ l"
proof (induction es arbitrary: s)
  case Nil
  then show ?case by simp
next
  case (Cons e es)
  show ?case
  proof (cases "step sf e s")
    case (Inl x)
    with Cons.prems have "step sf e s = Inl (err, s')" by simp
    then show ?thesis by (simp add: step_uncaught_outbox)
  next
    case (Inr s1)
    then obtain l where l: "outbox s1 = outbox s @ l"
      using step_outbox_prefix by blast
    from Inr Cons.prems have "run sf es s1 = Inr s' \<or> run sf es s1 = Inl (err, s')"
      by simp
    then obtain l' where "outbox s' = outbox s1 @ l'"
      using Cons.IH by blast
    with l show ?thesis by simp
  qed
qed

lemma lobby_fields:
  "messages lobby = []" "clients lobby = [10, 20]" "readyState lobby 10 = OPEN"
  "readyState lobby 20 = CLOSING" "outbox lobby = [(10, InitFrame []), (20, InitFrame [])]"
  "console lobby = []"
  by (simp_all add: lobby_def)

lemma nesting_deep: "nesting (deep n) = n"
  by (induction n) simp_all

section \<open>The claims about the hub\<close>

lemma run_say: "uncaught (run sf (map say ns) s) = None"
  by (induction ns arbitrary: s) (simp_all add: say_def)

lemma run_cases:
  obtains s' where "run sf es s = Inr s'" | err s' where "run sf es s = Inl (err, s')"
  by (cases "run sf es s") auto

text \<open>
  C1. Whatever events reach a freshly started hub and whatever \<^verbatim>\<open>JSON.stringify\<close> does,
  the history buffer holds at most 50 messages at the end of the run. When no exception
  has ended the run, it holds the last 50 of the messages posted so far (all of them
  while there are at most 50), oldest first; when one has, it holds the last 50 of the
  messages posted by the events handled before that. Handlers run to completion, so the
  states between events are the only ones another party can observe, and every one of
  them is the state after some sequence of events.
\<close>

theorem history_bounded_most_recent:
  "length (messages (final (run sf es init_hub))) \<le> 50 \<and>
   (uncaught (run sf es init_hub) = None \<longrightarrow>
      length (messages (final (run sf es init_hub))) = min 50 (length (posts es)) \<and>
      messages (final (run sf es init_hub)) = drop (length (posts es) - 50) (posts es)) \<and>
   (uncaught (run sf es init_hub) \<noteq> None \<longrightarrow>
      (\<exists>n<length es. messages (final (run sf es init_hub)) =
         drop (length (posts (take n es)) - 50) (posts (take n es))))"
proof -
  have len: "length (messages init_hub) \<le> 50" by (simp add: init_hub_def)
  show ?thesis
  proof (cases rule: run_cases [of sf es init_hub])
    case (1 s')
    from run_messages [OF len 1] have "messages s' = lastn 50 (posts es)"
      by (simp add: init_hub_def)
    with 1 show ?thesis by (auto simp: lastn_def)
  next
    case (2 err s')
    from run_uncaught_messages [OF len 2] obtain n where "n < length es"
      and "messages s' = lastn 50 (posts (take n es))"
      by (auto simp: init_hub_def)
    with 2 show ?thesis by (auto simp: lastn_def)
  qed
qed

theorem history_bounded_most_recent_witness:
  "uncaught (run (stack 10000) (map say [0..<51]) init_hub) = None \<and>
   length (posts (map say [0..<51])) = 51 \<and>
   map timestamp (messages (final (run (stack 10000) (map say [0..<51]) init_hub))) =
     map int [1..<51] \<and>
   uncaught (run (stack 10000) [Message 10 (Inr (deep_text 100000)) ''0.ks2knzf06xc'' 7,
       Connection 30] init_hub) \<noteq> None \<and>
   length (messages (final (run (stack 10000)
       [Message 10 (Inr (deep_text 100000)) ''0.ks2knzf06xc'' 7, Connection 30] init_hub))) \<le> 50"
proof -
  have alive: "uncaught (run (stack 10000) (map say [0..<51]) init_hub) = None"
    by (rule run_say)
  then have "messages (final (run (stack 10000) (map say [0..<51]) init_hub)) =
      drop (length (posts (map say [0..<51])) - 50) (posts (map say [0..<51]))"
    using history_bounded_most_recent [of "stack 10000" "map say [0..<51]"] by blast
  moreover have n: "length (posts (map say [0..<51])) = 51"
    by code_simp
  moreover have "map timestamp (drop 1 (posts (map say [0..<51]))) = map int [1..<51]"
    by code_simp
  ultimately have a: "map timestamp (messages (final (run (stack 10000) (map say [0..<51])
      init_hub))) = map int [1..<51]"
    by simp
  have dead: "uncaught (run (stack 10000) [Message 10 (Inr (deep_text 100000)) ''0.ks2knzf06xc'' 7,
       Connection 30] init_hub) \<noteq> None"
    by (simp add: init_hub_def on_message_def on_connection_def Let_def stack_def
        push_shift_def newMessage_def deep_text_def or_else_def message_nesting_def nesting_deep)
  have "length (messages (final (run (stack 10000)
       [Message 10 (Inr (deep_text 100000)) ''0.ks2knzf06xc'' 7, Connection 30] init_hub))) \<le> 50"
    using history_bounded_most_recent [of "stack 10000"
        "[Message 10 (Inr (deep_text 100000)) ''0.ks2knzf06xc'' 7, Connection 30]"]
    by blast
  with alive n a dead show ?thesis by blast
qed

lemma sample_frames:
  "stack 10000 (MessageFrame (newMessage hello r t)) = None"
  "stack 10000 (MessageFrame (newMessage no_text r t)) = None"
  "stack 10000 (MessageFrame (newMessage empty_text r t)) = None"
  "stack 10000 (MessageFrame (newMessage (deep_text 100000) r t)) = Some range_error"
  by (simp_all add: stack_def message_nesting_def newMessage_def or_else_def hello_def
      no_text_def empty_text_def deep_text_def nesting_deep)

text \<open>
  When \<^verbatim>\<open>JSON.stringify\<close> returns on the new message, an accepted post appends and
  then broadcasts: the new message goes to the end of the buffer, the oldest entry is
  dropped when the buffer holds 50 already, and the message is sent once to each
  registered socket whose state is \<open>OPEN\<close>, in the order of registration. Over any run
  that no exception has ended, the chat messages a socket has received form a
  subsequence of the posted messages.
\<close>

lemma post_broadcast_when_serialised:
  assumes "accepted (Inr payload)" and "sf (MessageFrame (newMessage payload rnd now)) = None"
  shows "messages (on_message sf (Inr payload) rnd now s) =
       (if length (messages s) < 50 then messages s @ [newMessage payload rnd now]
        else tl (messages s) @ [newMessage payload rnd now])"
    and "outbox (on_message sf (Inr payload) rnd now s) =
       outbox s @ map (\<lambda>c. (c, MessageFrame (newMessage payload rnd now)))
                    (filter (\<lambda>c. readyState s c = OPEN) (clients s))"
  using assms
  by (simp_all add: on_message_messages on_message_outbox push_shift_explicit
      del: accepted.simps)

lemma broadcast_order:
  assumes "run sf es init_hub = Inr s"
  shows "subseq (received c (outbox s)) (posts es)"
proof -
  have "distinct (clients init_hub)" by (simp add: init_hub_def)
  from run_received [OF this assms] obtain X where
    "received c (outbox s) = received c (outbox init_hub) @ X" and "subseq X (posts es)"
    by blast
  then show ?thesis by (simp add: init_hub_def)
qed

text \<open>
  C5 does not hold of the code for every accepted post. When \<^verbatim>\<open>JSON.stringify\<close> throws
  on the new message, which it does for a payload nested too deep, the message has been
  appended to the history buffer (with eviction), but nothing is sent to any socket,
  open or not, and the error is printed.
\<close>

theorem post_stored_but_not_broadcast:
  "accepted (Inr payload) \<and> sf (MessageFrame (newMessage payload rnd now)) = Some e \<longrightarrow>
     messages (on_message sf (Inr payload) rnd now s) =
       (if length (messages s) < 50 then messages s @ [newMessage payload rnd now]
        else tl (messages s) @ [newMessage payload rnd now]) \<and>
     outbox (on_message sf (Inr payload) rnd now s) = outbox s \<and>
     console (on_message sf (Inr payload) rnd now s) = console s @ [e]"
  by (simp add: on_message_messages on_message_outbox on_message_console
      push_shift_explicit del: accepted.simps)

theorem post_stored_but_not_broadcast_witness:
  "accepted (Inr (deep_text 100000)) \<and>
   stack 10000 (MessageFrame (newMessage (deep_text 100000) ''0.ks2knzf06xc'' 7)) =
     Some range_error \<and>
   10 \<in> set (clients lobby) \<and> readyState lobby 10 = OPEN \<and>
   messages (on_message (stack 10000) (Inr (deep_text 100000)) ''0.ks2knzf06xc'' 7 lobby) =
     [\<lparr>id_msg = ''ks2knzf06'', user = JStr ''bob'', text_msg = deep 100000,
        timestamp = 7, color = JStr ''#ffffff''\<rparr>] \<and>
   outbox (on_message (stack 10000) (Inr (deep_text 100000)) ''0.ks2knzf06xc'' 7 lobby) =
     outbox lobby \<and>
   console (on_message (stack 10000) (Inr (deep_text 100000)) ''0.ks2knzf06xc'' 7 lobby) =
     [range_error]"
  using post_stored_but_not_broadcast [of "deep_text 100000" "stack 10000" "''0.ks2knzf06xc''" 7
      range_error lobby]
    sample_frames(4) [of "''0.ks2knzf06xc''" 7]
  by (simp add: lobby_fields newMessage_def substring_def or_else_def deep_text_def)

text \<open>
  When \<^verbatim>\<open>JSON.stringify\<close> returns on the history buffer, a join is answered at once:
  the handler sends exactly one frame, to the joining socket alone, with the whole buffer as
  it is at that moment, the buffer is left as it was, and whatever is sent later comes
  after that frame.
\<close>

lemma join_sends_snapshot_when_serialised:
  assumes "sf (InitFrame (messages s)) = None"
  shows "uncaught (step sf (Connection c) s) = None"
    and "outbox (final (step sf (Connection c) s)) = outbox s @ [(c, InitFrame (messages s))]"
    and "messages (final (step sf (Connection c) s)) = messages s"
    and "take (Suc (length (outbox s)))
           (outbox (final (run sf es (final (step sf (Connection c) s))))) =
         outbox s @ [(c, InitFrame (messages s))]"
proof -
  let ?s1 = "final (step sf (Connection c) s)"
  show one: "outbox ?s1 = outbox s @ [(c, InitFrame (messages s))]"
    and "uncaught (step sf (Connection c) s) = None"
    and "messages ?s1 = messages s"
    using assms by (simp_all add: on_connection_def Let_def)
  obtain l where "outbox (final (run sf es ?s1)) = outbox ?s1 @ l"
    by (cases rule: run_cases [of sf es ?s1]) (use run_outbox_prefix in fastforce)+
  with one show "take (Suc (length (outbox s))) (outbox (final (run sf es ?s1))) =
      outbox s @ [(c, InitFrame (messages s))]"
    by simp
qed

text \<open>
  C6 does not hold of the code for every join. When \<^verbatim>\<open>JSON.stringify\<close> throws on the
  history buffer, which it does as long as the buffer holds a message nested too deep,
  the connection handler registers the socket and then ends in an exception that nothing
  catches: the joining socket is sent nothing.
\<close>

theorem join_throws_on_unserialisable_history:
  "sf (InitFrame (messages s)) = Some e \<longrightarrow>
     uncaught (step sf (Connection c) s) = Some e \<and>
     outbox (final (step sf (Connection c) s)) = outbox s \<and>
     clients (final (step sf (Connection c) s)) = set_add c (clients s)"
  by (simp add: on_connection_def Let_def)

theorem join_throws_on_unserialisable_history_witness:
  "stack 10000 (InitFrame (messages (on_message (stack 10000) (Inr (deep_text 100000))
       ''0.ks2knzf06xc'' 7 lobby))) = Some range_error \<and>
   uncaught (step (stack 10000) (Connection 30)
     (on_message (stack 10000) (Inr (deep_text 100000)) ''0.ks2knzf06xc'' 7 lobby)) =
     Some range_error \<and>
   sent_to 30 (outbox (final (step (stack 10000) (Connection 30)
     (on_message (stack 10000) (Inr (deep_text 100000)) ''0.ks2knzf06xc'' 7 lobby)))) = [] \<and>
   clients (final (step (stack 10000) (Connection 30)
     (on_message (stack 10000) (Inr (deep_text 100000)) ''0.ks2knzf06xc'' 7 lobby))) =
     [10, 20, 30]"
proof -
  let ?s = "on_message (stack 10000) (Inr (deep_text 100000)) ''0.ks2knzf06xc'' 7 lobby"
  have ms: "messages ?s = [newMessage (deep_text 100000) ''0.ks2knzf06xc'' 7]"
    by (simp add: on_message_messages push_shift_explicit lobby_fields deep_text_def)
  have thr: "stack 10000 (InitFrame (messages ?s)) = Some range_error"
    unfolding ms
    by (simp add: stack_def message_nesting_def newMessage_def or_else_def deep_text_def
        nesting_deep)
  have ob: "outbox ?s = outbox lobby"
    using sample_frames(4) [of "''0.ks2knzf06xc''" 7]
    by (simp add: on_message_outbox deep_text_def)
  have cl: "clients ?s = [10, 20]"
    by (simp add: on_message_clients lobby_fields)
  from thr join_throws_on_unserialisable_history [of "stack 10000" ?s range_error 30]
  have "uncaught (step (stack 10000) (Connection 30) ?s) = Some range_error"
    and "outbox (final (step (stack 10000) (Connection 30) ?s)) = outbox ?s"
    and "clients (final (step (stack 10000) (Connection 30) ?s)) = set_add 30 (clients ?s)"
    by blast+
  with thr ob cl show ?thesis
    by (simp add: lobby_fields sent_to_def set_add_def)
qed

text \<open>
  C2, as the specification states it, fails: a payload of type \<^verbatim>\<open>message\<close> with no
  \<^verbatim>\<open>text\<close> is posted like any other. The stored message has no text, the open socket is
  sent it, and nothing is printed.
\<close>

theorem post_without_text_counterexample:
  "member no_text ''type'' = JStr ''message'' \<and> member no_text ''text'' = JUndefined \<and>
   messages lobby = [] \<and>
   messages (on_message (stack 10000) (Inr no_text) ''0.4fzyo82mvyt'' 5 lobby) =
     [\<lparr>id_msg = ''4fzyo82mv'', user = JStr ''bob'', text_msg = JUndefined,
        timestamp = 5, color = JStr ''#ffffff''\<rparr>] \<and>
   outbox (on_message (stack 10000) (Inr no_text) ''0.4fzyo82mvyt'' 5 lobby) =
     outbox lobby @ [(10, MessageFrame \<lparr>id_msg = ''4fzyo82mv'', user = JStr ''bob'',
        text_msg = JUndefined, timestamp = 5, color = JStr ''#ffffff''\<rparr>)] \<and>
   console (on_message (stack 10000) (Inr no_text) ''0.4fzyo82mvyt'' 5 lobby) = console lobby \<and>
   messages (on_message (stack 10000) (Inr no_text) ''0.4fzyo82mvyt'' 5 lobby) \<noteq> messages lobby \<and>
   outbox (on_message (stack 10000) (Inr no_text) ''0.4fzyo82mvyt'' 5 lobby) \<noteq> outbox lobby"
  by (simp add: lobby_fields on_message_def Let_def push_shift_def newMessage_def
      substring_def or_else_def no_text_def stack_def message_nesting_def)

text \<open>
  C2, amended. The handler never looks at \<^verbatim>\<open>text\<close>. A payload that is an object (or any
  value other than \<^verbatim>\<open>null\<close>) whose \<^verbatim>\<open>type\<close> is the string \<^verbatim>\<open>message\<close> is posted
  whatever its text: the new message, whose text is the payload's \<^verbatim>\<open>text\<close> as it came
  (undefined when absent), is put at the end of the buffer, the oldest entry being
  dropped when the buffer holds 50 already, and the set of sockets stays as it was.
  When \<^verbatim>\<open>JSON.stringify\<close> returns on the message, it is sent to the open sockets and
  nothing is printed; what happens when it throws is not part of this statement. Every
  other input (unparseable data, \<^verbatim>\<open>null\<close>, another \<^verbatim>\<open>type\<close>) leaves the history
  buffer, the set of sockets and the sends as they were.
\<close>

theorem post_accepts_any_text:
  "(accepted (Inr payload) \<longrightarrow>
      messages (on_message sf (Inr payload) rnd now s) =
        (if length (messages s) < 50 then messages s @ [newMessage payload rnd now]
         else tl (messages s) @ [newMessage payload rnd now]) \<and>
      text_msg (last (messages (on_message sf (Inr payload) rnd now s))) =
        member payload ''text'' \<and>
      clients (on_message sf (Inr payload) rnd now s) = clients s \<and>
      (sf (MessageFrame (newMessage payload rnd now)) = None \<longrightarrow>
         console (on_message sf (Inr payload) rnd now s) = console s \<and>
         outbox (on_message sf (Inr payload) rnd now s) =
           outbox s @ map (\<lambda>c. (c, MessageFrame (newMessage payload rnd now)))
                        (filter (\<lambda>c. readyState s c = OPEN) (clients s)))) \<and>
   (\<not> accepted data \<longrightarrow>
      messages (on_message sf data rnd now s) = messages s \<and>
      clients (on_message sf data rnd now s) = clients s \<and>
      outbox (on_message sf data rnd now s) = outbox s)"
proof -
  have "text_msg (newMessage payload rnd now) = member payload ''text''"
    by (simp add: newMessage_def)
  then show ?thesis
    by (simp add: on_message_messages on_message_clients on_message_outbox on_message_console
        push_shift_explicit del: accepted.simps)
qed

theorem post_accepts_any_text_witness:
  "accepted (Inr empty_text) \<and> member empty_text ''text'' = JStr [] \<and>
   stack 10000 (MessageFrame (newMessage empty_text ''0.4fzyo82mvyt'' 5)) = None \<and>
   messages (on_message (stack 10000) (Inr empty_text) ''0.4fzyo82mvyt'' 5 lobby) =
     [\<lparr>id_msg = ''4fzyo82mv'', user = JStr ''bob'', text_msg = JStr [],
        timestamp = 5, color = JStr ''#34d399''\<rparr>] \<and>
   clients (on_message (stack 10000) (Inr empty_text) ''0.4fzyo82mvyt'' 5 lobby) = [10, 20] \<and>
   console (on_message (stack 10000) (Inr empty_text) ''0.4fzyo82mvyt'' 5 lobby) = [] \<and>
   outbox (on_message (stack 10000) (Inr empty_text) ''0.4fzyo82mvyt'' 5 lobby) =
     [(10, InitFrame []), (20, InitFrame []),
      (10, MessageFrame \<lparr>id_msg = ''4fzyo82mv'', user = JStr ''bob'', text_msg = JStr [],
        timestamp = 5, color = JStr ''#34d399''\<rparr>)] \<and>
   \<not> accepted (Inr JNull) \<and>
   messages (on_message (stack 10000) (Inr JNull) ''0.4fzyo82mvyt'' 5 lobby) = [] \<and>
   outbox (on_message (stack 10000) (Inr JNull) ''0.4fzyo82mvyt'' 5 lobby) = outbox lobby"
  using post_accepts_any_text [of empty_text "stack 10000" "''0.4fzyo82mvyt''" 5 lobby "Inr JNull"]
    sample_frames(3) [of "''0.4fzyo82mvyt''" 5]
  by (simp add: lobby_fields newMessage_def substring_def or_else_def empty_text_def)

text \<open>
  C10. Whatever the message handler receives, it sends nothing to a socket whose state
  is not \<open>OPEN\<close>, registered or not: what that socket has been sent is the same before
  and after. Every send the handler makes goes to a registered socket whose state is
  \<open>OPEN\<close>.
\<close>

theorem broadcast_skips_sockets_not_open:
  "(readyState s c \<noteq> OPEN \<longrightarrow>
      sent_to c (outbox (on_message sf data rnd now s)) = sent_to c (outbox s)) \<and>
   list_all (\<lambda>p. fst p \<in> set (clients s) \<and> readyState s (fst p) = OPEN)
     (drop (length (outbox s)) (outbox (on_message sf data rnd now s)))"
  by (auto simp: on_message_outbox sent_to_def list_all_iff filter_empty_conv
      simp del: accepted.simps)

theorem broadcast_skips_sockets_not_open_witness:
  "20 \<in> set (clients lobby) \<and> readyState lobby 20 \<noteq> OPEN \<and>
   sent_to 20 (outbox (on_message (stack 10000) (Inr hello) ''0.4fzyo82mvyt'' 5 lobby)) =
     [InitFrame []] \<and>
   sent_to 10 (outbox (on_message (stack 10000) (Inr hello) ''0.4fzyo82mvyt'' 5 lobby)) =
     [InitFrame [], MessageFrame \<lparr>id_msg = ''4fzyo82mv'', user = JStr ''alice'',
        text_msg = JStr ''hi'', timestamp = 5, color = JStr ''#fff''\<rparr>]"
  using broadcast_skips_sockets_not_open [of lobby 20 "stack 10000" "Inr hello"
      "''0.4fzyo82mvyt''" 5]
    sample_frames(1) [of "''0.4fzyo82mvyt''" 5]
  by (simp add: lobby_fields on_message_outbox sent_to_def
      newMessage_def substring_def or_else_def hello_def)

text \<open>
  C8, as the specification states it, fails: the identifier is a slice of at most nine
  characters of a random draw, and two different messages, here even from two different
  draws (the renderings of 0.12345600000000001 and 0.12345600000000023), get the same
  identifier.
\<close>

theorem identifiers_unique_counterexample:
  "messages (on_message (stack 10000) (Inr empty_text) ''0.4fzyo82mvzm'' 6
     (on_message (stack 10000) (Inr hello) ''0.4fzyo82mvyt'' 5 init_hub)) =
     [\<lparr>id_msg = ''4fzyo82mv'', user = JStr ''alice'', text_msg = JStr ''hi'',
        timestamp = 5, color = JStr ''#fff''\<rparr>,
      \<lparr>id_msg = ''4fzyo82mv'', user = JStr ''bob'', text_msg = JStr [],
        timestamp = 6, color = JStr ''#34d399''\<rparr>] \<and>
   \<not> distinct (map id_msg (messages (on_message (stack 10000) (Inr empty_text)
     ''0.4fzyo82mvzm'' 6
     (on_message (stack 10000) (Inr hello) ''0.4fzyo82mvyt'' 5 init_hub))))"
  by (simp add: on_message_messages push_shift_explicit init_hub_def newMessage_def
      substring_def or_else_def hello_def empty_text_def)

text \<open>
  C8, amended. The identifier of a posted message is made by the server when the payload
  arrives: it is the characters 2 to 10 of the base-36 rendering of a random draw, at most
  nine characters, whatever the payload holds (an \<^verbatim>\<open>id\<close> of its own included). Two posted
  messages have equal identifiers exactly when those slices of their draws are equal.
\<close>

theorem identifier_from_server_draw:
  "(accepted (Inr payload) \<longrightarrow>
      id_msg (last (messages (on_message sf (Inr payload) rnd now s))) = substring 2 11 rnd \<and>
      length (id_msg (last (messages (on_message sf (Inr payload) rnd now s)))) \<le> 9) \<and>
   (accepted (Inr payload) \<and> accepted (Inr payload') \<longrightarrow>
      (id_msg (last (messages (on_message sf (Inr payload) rnd now s))) =
       id_msg (last (messages (on_message sf' (Inr payload') rnd' now' s'))))
      = (substring 2 11 rnd = substring 2 11 rnd'))"
  by (simp add: on_message_messages push_shift_last newMessage_def substring_def
      del: accepted.simps)

theorem identifier_from_server_draw_witness:
  "accepted (Inr own_id) \<and> member own_id ''id'' = JStr ''chosen-by-client'' \<and>
   id_msg (last (messages (on_message (stack 10000) (Inr own_id) ''0.4fzyo82mvyt'' 5 lobby))) =
     ''4fzyo82mv'' \<and>
   accepted (Inr hello) \<and>
   substring 2 11 ''0.4fzyo82mvyt'' = substring 2 11 ''0.4fzyo82mvzm'' \<and>
   id_msg (last (messages (on_message (stack 10000) (Inr own_id) ''0.4fzyo82mvyt'' 5 lobby))) =
   id_msg (last (messages (on_message (stack 10000) (Inr hello) ''0.4fzyo82mvzm'' 6 init_hub)))"
proof -
  note draw = identifier_from_server_draw [of own_id "stack 10000" "''0.4fzyo82mvyt''" 5 lobby
      hello "stack 10000" "''0.4fzyo82mvzm''" 6 init_hub]
  have acc: "accepted (Inr own_id)" "accepted (Inr hello)"
    by (simp_all add: own_id_def hello_def)
  have own: "member own_id ''id'' = JStr ''chosen-by-client''"
    by (simp add: own_id_def)
  have slice: "substring 2 11 ''0.4fzyo82mvyt'' = ''4fzyo82mv''"
    by (simp add: substring_def)
  have slices: "substring 2 11 ''0.4fzyo82mvyt'' = substring 2 11 ''0.4fzyo82mvzm''"
    by (simp add: substring_def)
  have one: "id_msg (last (messages (on_message (stack 10000) (Inr own_id) ''0.4fzyo82mvyt'' 5
      lobby))) = ''4fzyo82mv''"
    using draw acc(1) slice by metis
  have two: "id_msg (last (messages (on_message (stack 10000) (Inr own_id) ''0.4fzyo82mvyt'' 5
      lobby))) =
      id_msg (last (messages (on_message (stack 10000) (Inr hello) ''0.4fzyo82mvzm'' 6 init_hub)))"
    using draw acc slices by blast
  from acc own one slices two show ?thesis by blast
qed

text \<open>
  C9, as the specification states it, fails for the colour: a \<^verbatim>\<open>color\<close> that is present
  but empty is replaced by white.
\<close>

theorem color_present_but_empty_counterexample:
  "member empty_color ''color'' = JStr [] \<and>
   color (last (messages (on_message (stack 10000) (Inr empty_color) ''0.4fzyo82mvyt'' 5 lobby))) =
     JStr ''#ffffff'' \<and>
   color (last (messages (on_message (stack 10000) (Inr empty_color) ''0.4fzyo82mvyt'' 5 lobby))) \<noteq>
     member empty_color ''color''"
  by (simp add: on_message_messages push_shift_last newMessage_def or_else_def empty_color_def)

text \<open>
  C9, amended. Both fields are filled with \<^verbatim>\<open>||\<close>: the author of the stored message is
  the payload's \<^verbatim>\<open>user\<close> when that is truthy and \<^verbatim>\<open>Anonymous\<close> otherwise, its colour is
  the payload's \<^verbatim>\<open>color\<close> when that is truthy and \<^verbatim>\<open>#ffffff\<close> otherwise. For a string
  that means: the string itself when it is not empty, the default when it is empty or
  absent.
\<close>

theorem author_and_color_defaults:
  "accepted (Inr payload) \<longrightarrow>
     user (last (messages (on_message sf (Inr payload) rnd now s))) =
       (if truthy (member payload ''user'') then member payload ''user''
        else JStr ''Anonymous'') \<and>
     color (last (messages (on_message sf (Inr payload) rnd now s))) =
       (if truthy (member payload ''color'') then member payload ''color''
        else JStr ''#ffffff'') \<and>
     (\<forall>u. member payload ''user'' = JStr u \<longrightarrow>
        user (last (messages (on_message sf (Inr payload) rnd now s))) =
          JStr (if u = [] then ''Anonymous'' else u)) \<and>
     (member payload ''user'' = JUndefined \<longrightarrow>
        user (last (messages (on_message sf (Inr payload) rnd now s))) = JStr ''Anonymous'') \<and>
     (\<forall>c. member payload ''color'' = JStr c \<longrightarrow>
        color (last (messages (on_message sf (Inr payload) rnd now s))) =
          JStr (if c = [] then ''#ffffff'' else c)) \<and>
     (member payload ''color'' = JUndefined \<longrightarrow>
        color (last (messages (on_message sf (Inr payload) rnd now s))) = JStr ''#ffffff'')"
  by (simp add: on_message_messages push_shift_last newMessage_def or_else_def
      del: accepted.simps)

theorem author_and_color_defaults_witness:
  "accepted (Inr hello) \<and>
   member hello ''user'' = JStr ''alice'' \<and> member hello ''color'' = JStr ''#fff'' \<and>
   user (last (messages (on_message (stack 10000) (Inr hello) ''0.4fzyo82mvyt'' 5 lobby))) =
     JStr ''alice'' \<and>
   color (last (messages (on_message (stack 10000) (Inr hello) ''0.4fzyo82mvyt'' 5 lobby))) =
     JStr ''#fff'' \<and>
   accepted (Inr no_text) \<and>
   member no_text ''color'' = JUndefined \<and>
   color (last (messages (on_message (stack 10000) (Inr no_text) ''0.4fzyo82mvyt'' 5 lobby))) =
     JStr ''#ffffff''"
  using author_and_color_defaults [of hello "stack 10000" "''0.4fzyo82mvyt''" 5 lobby]
    author_and_color_defaults [of no_text "stack 10000" "''0.4fzyo82mvyt''" 5 lobby]
  by (simp add: hello_def no_text_def)

section \<open>The relay's replies\<close>

text \<open>
  C7. When the query has no \<^verbatim>\<open>url\<close> or an empty one, the handler answers with status
  400 and the error \<^verbatim>\<open>URL is required\<close>, and does nothing else: no request goes out.
\<close>

theorem missing_url_is_rejected_before_fetch:
  "targetUrl = JUndefined \<or> targetUrl = JStr [] \<longrightarrow>
     api_proxy targetUrl up = [Status 400, Json [(''error'', ''URL is required'')]] \<and>
     fetches (api_proxy targetUrl up) = []"
  by (auto simp: api_proxy_def)

theorem missing_url_is_rejected_before_fetch_witness:
  "api_proxy JUndefined quick = [Status 400, Json [(''error'', ''URL is required'')]] \<and>
   fetches (api_proxy JUndefined quick) = [] \<and>
   api_proxy (JStr []) quick = [Status 400, Json [(''error'', ''URL is required'')]] \<and>
   fetches (api_proxy (JStr []) quick) = []"
  using missing_url_is_rejected_before_fetch [of JUndefined quick]
    missing_url_is_rejected_before_fetch [of "JStr []" quick]
  by simp

text \<open>
  A target that is truthy but does not convert to a string, such as the object the query
  \<^verbatim>\<open>?url[toString]=x\<close> is parsed to, gets no request and no reply: the handler ends
  in an exception.
\<close>

lemma unconvertible_target:
  "truthy targetUrl \<Longrightarrow> to_string_throws targetUrl \<Longrightarrow>
   api_proxy targetUrl up = [Uncaught convert_error]"
  by (simp add: api_proxy_def catch_error_def)

lemma unconvertible_target_sample:
  "api_proxy (JObj [(''toString'', JStr ''x'')]) quick = [Uncaught convert_error]"
  by (simp add: unconvertible_target)

text \<open>
  C3, as the specification states it, fails: the deadline ends when the response headers
  arrive. A call whose headers arrive after 120 ms and whose body takes 15 s more goes on
  for longer than 10 s and is answered with the body, not with a timeout.
\<close>

theorem slow_body_counterexample:
  "outcome trickle =
     Resolved \<lparr>content_type = Some ''text/html'', body_ms = 15000,
       arrayBuffer = Inr [0x3C, 0x70, 0x3E]\<rparr> \<and>
   latency trickle + 15000 > 10000 \<and>
   api_proxy (JStr ''https://example.org/'') trickle =
     [Fetch (JStr ''https://example.org/'') [(''User-Agent'', user_agent)],
      SetHeader ''Content-Type'' ''text/html'',
      SetHeader ''Access-Control-Allow-Origin'' ''*'',
      SetHeader ''X-Frame-Options'' ''ALLOWALL'',
      SetHeader ''Content-Security-Policy'' ''frame-ancestors *'',
      Send [0x3C, 0x70, 0x3E]] \<and>
   error_reply (api_proxy (JStr ''https://example.org/'') trickle) = None"
  by (simp add: api_proxy_def fetch_def trickle_def)

text \<open>
  C3, amended. For a target that converts to a string: when the promise of \<^verbatim>\<open>fetch\<close> is
  still pending after 10000 ms, that is, when no response headers have arrived by then,
  the reply is status 500 with the error \<^verbatim>\<open>Request timed out\<close>. When the promise rejects
  earlier with an error that is not an abort, or the headers arrive in time and the body
  cannot be read, the reply is status 500 with the error \<^verbatim>\<open>Failed to fetch URL\<close>. The two
  error texts differ, and in neither case is a body sent.
\<close>

theorem timeout_distinct_from_unreachable:
  "truthy targetUrl \<and> \<not> to_string_throws targetUrl \<longrightarrow>
     (10000 < latency up \<longrightarrow>
        api_proxy targetUrl up =
          [Fetch targetUrl [(''User-Agent'', user_agent)], Status 500,
           Json [(''error'', ''Request timed out''),
                 (''details'', ''This operation was aborted'')]]) \<and>
     (latency up < 10000 \<and> outcome up = Rejected e \<and> name e \<noteq> ''AbortError'' \<longrightarrow>
        api_proxy targetUrl up =
          [Fetch targetUrl [(''User-Agent'', user_agent)], Status 500,
           Json [(''error'', ''Failed to fetch URL''), (''details'', message e)]]) \<and>
     (latency up < 10000 \<and> outcome up = Resolved r \<and> arrayBuffer r = Inl e \<and>
      name e \<noteq> ''AbortError'' \<longrightarrow>
        error_reply (api_proxy targetUrl up) =
          Some (500, [(''error'', ''Failed to fetch URL''), (''details'', message e)]) \<and>
        sent_body (api_proxy targetUrl up) = None)"
  by (auto simp: api_proxy_def fetch_def catch_error_def abort_error_def
      split: option.splits)

theorem timeout_distinct_from_unreachable_witness:
  "truthy (JStr ''https://example.org/'') \<and>
   \<not> to_string_throws (JStr ''https://example.org/'') \<and> 10000 < latency slow \<and>
   error_reply (api_proxy (JStr ''https://example.org/'') slow) =
     Some (500, [(''error'', ''Request timed out''),
                 (''details'', ''This operation was aborted'')]) \<and>
   sent_body (api_proxy (JStr ''https://example.org/'') slow) = None \<and>
   latency refused < 10000 \<and>
   error_reply (api_proxy (JStr ''https://example.org/'') refused) =
     Some (500, [(''error'', ''Failed to fetch URL''), (''details'', ''fetch failed'')]) \<and>
   sent_body (api_proxy (JStr ''https://example.org/'') refused) = None \<and>
   latency cut_off < 10000 \<and>
   error_reply (api_proxy (JStr ''https://example.org/'') cut_off) =
     Some (500, [(''error'', ''Failed to fetch URL''), (''details'', ''terminated'')]) \<and>
   sent_body (api_proxy (JStr ''https://example.org/'') cut_off) = None"
  using timeout_distinct_from_unreachable [of "JStr ''https://example.org/''" slow]
    timeout_distinct_from_unreachable [of "JStr ''https://example.org/''" refused
      "\<lparr>name = ''TypeError'', message = ''fetch failed''\<rparr>"]
    timeout_distinct_from_unreachable [of "JStr ''https://example.org/''" cut_off
      "\<lparr>name = ''TypeError'', message = ''terminated''\<rparr>"
      "\<lparr>content_type = Some ''text/html'', body_ms = 5,
        arrayBuffer = Inl \<lparr>name = ''TypeError'', message = ''terminated''\<rparr>\<rparr>"]
  by (simp add: slow_def refused_def cut_off_def)

text \<open>
  C4, as the specification states it, fails for the content type: an upstream header
  \<^verbatim>\<open>Content-Type\<close> that is present with an empty value is not copied.
\<close>

theorem empty_content_type_counterexample:
  "outcome blank_type =
     Resolved \<lparr>content_type = Some [], body_ms = 5, arrayBuffer = Inr [0x3C, 0x70, 0x3E]\<rparr> \<and>
   api_proxy (JStr ''https://example.org/'') blank_type =
     [Fetch (JStr ''https://example.org/'') [(''User-Agent'', user_agent)],
      SetHeader ''Access-Control-Allow-Origin'' ''*'',
      SetHeader ''X-Frame-Options'' ''ALLOWALL'',
      SetHeader ''Content-Security-Policy'' ''frame-ancestors *'',
      Send [0x3C, 0x70, 0x3E]] \<and>
   header_set ''Content-Type'' (api_proxy (JStr ''https://example.org/'') blank_type) = None \<and>
   header_set ''Content-Type'' (api_proxy (JStr ''https://example.org/'') blank_type) \<noteq>
     Some []"
  by (simp add: api_proxy_def fetch_def blank_type_def)

text \<open>
  C4, amended. When the target is accepted and converts to a string, so that the request
  is issued, the promise of \<^verbatim>\<open>fetch\<close> resolves before the deadline and the body can be
  read, the handler issues one request, sends the whole body and no error, and has set
  before it: \<^verbatim>\<open>Content-Type\<close> to the upstream value when that is present and not empty
  (and not at all otherwise), \<^verbatim>\<open>Access-Control-Allow-Origin\<close> to \<^verbatim>\<open>*\<close>,
  \<^verbatim>\<open>Content-Security-Policy\<close> to \<^verbatim>\<open>frame-ancestors *\<close>, and \<^verbatim>\<open>X-Frame-Options\<close> to
  \<^verbatim>\<open>ALLOWALL\<close>.
\<close>

theorem success_body_type_and_framing_headers:
  "truthy targetUrl \<and> \<not> to_string_throws targetUrl \<and> latency up < 10000 \<and>
   outcome up = Resolved r \<and> arrayBuffer r = Inr body \<longrightarrow>
     fetches (api_proxy targetUrl up) = [targetUrl] \<and>
     sent_body (api_proxy targetUrl up) = Some body \<and>
     error_reply (api_proxy targetUrl up) = None \<and>
     (\<forall>v. content_type r = Some v \<and> v \<noteq> [] \<longrightarrow>
        header_set ''Content-Type'' (before_send (api_proxy targetUrl up)) = Some v) \<and>
     (content_type r = None \<or> content_type r = Some [] \<longrightarrow>
        header_set ''Content-Type'' (api_proxy targetUrl up) = None) \<and>
     header_set ''Access-Control-Allow-Origin'' (before_send (api_proxy targetUrl up)) =
       Some ''*'' \<and>
     header_set ''Content-Security-Policy'' (before_send (api_proxy targetUrl up)) =
       Some ''frame-ancestors *'' \<and>
     header_set ''X-Frame-Options'' (before_send (api_proxy targetUrl up)) = Some ''ALLOWALL''"
  by (auto simp: api_proxy_def fetch_def split: option.splits)

theorem success_body_type_and_framing_headers_witness:
  "truthy (JStr ''https://example.org/'') \<and>
   \<not> to_string_throws (JStr ''https://example.org/'') \<and> latency quick < 10000 \<and>
   outcome quick = Resolved page \<and> arrayBuffer page = Inr [0x3C, 0x70, 0x3E] \<and>
   content_type page = Some ''text/html; charset=utf-8'' \<and>
   sent_body (api_proxy (JStr ''https://example.org/'') quick) = Some [0x3C, 0x70, 0x3E] \<and>
   header_set ''Content-Type'' (before_send (api_proxy (JStr ''https://example.org/'') quick)) =
     Some ''text/html; charset=utf-8'' \<and>
   header_set ''X-Frame-Options'' (before_send (api_proxy (JStr ''https://example.org/'') quick)) =
     Some ''ALLOWALL''"
  using success_body_type_and_framing_headers [of "JStr ''https://example.org/''" quick page
      "[0x3C, 0x70, 0x3E]"]
  by (simp add: quick_def page_def)

end
